theory Spec2Isabelle
  imports Complex_Main "HOL-Library.Log_Nat"
begin

section \<open>WebStreamer/server/stream_routes.py\<close>

text \<open>
  A shallow embedding of the route handlers and of \<open>media_streamer\<close>. Python integers
  are \<open>int\<close>, strings are \<open>string\<close> (the characters of a header value are modelled
  by \<open>char\<close>, code points below 256), dictionaries are association lists where the
  iteration order matters (\<open>work_loads\<close>) and maps otherwise, and every exception the
  code can raise is a value \<open>Inl e\<close> of the result type \<open>exn + 'a\<close>.
\<close>

subsection \<open>Exceptions\<close>

text \<open>
  The subclasses of \<open>Exception\<close> that the handlers tell apart, those the builtins used by
  \<open>media_streamer\<close> raise, and \<open>OtherException\<close> for any other subclass of \<open>Exception\<close>
  (identified by its text). \<open>InvalidHash\<close> and \<open>FIleNotFound\<close> carry their \<open>message\<close>
  attribute, which the handlers read.
\<close>

datatype exn =
    InvalidHash string
  | FIleNotFound string
  | AttributeError
  | BadStatusLine
  | ConnectionResetError
  | ValueError
  | KeyError
  | ZeroDivisionError
  | OverflowError
  | OtherException string

subsection \<open>Python builtins used by the range parser\<close>

text \<open>\<open>str(n)\<close> for an integer, as the f-strings of the headers call it.\<close>

definition digit_char :: "nat \<Rightarrow> char" where
  "digit_char d = ''0123456789'' ! d"

function str_nat :: "nat \<Rightarrow> string" where
  "str_nat n = (if n < 10 then [digit_char n] else str_nat (n div 10) @ [digit_char (n mod 10)])"
  by pat_completeness auto
termination
  by (relation "measure id") auto

declare str_nat.simps [simp del]

definition str_int :: "int \<Rightarrow> string" where
  "str_int i = (if i < 0 then CHR ''-'' # str_nat (nat (- i)) else str_nat (nat i))"

text \<open>
  \<open>s.replace(old, new)\<close>: every occurrence of \<open>old\<close>, left to right and without
  overlap; with an empty \<open>old\<close>, \<open>new\<close> goes before every character and at the end.
\<close>

function py_replace :: "string \<Rightarrow> string \<Rightarrow> string \<Rightarrow> string" where
  "py_replace old new s =
     (if old = [] then new @ concat (map (\<lambda>c. c # new) s)
      else if s = [] then []
      else if take (length old) s = old then new @ py_replace old new (drop (length old) s)
      else hd s # py_replace old new (tl s))"
  by pat_completeness auto
termination
  by (relation "measure (\<lambda>(old, new, s). length s)") auto

declare py_replace.simps [simp del]

text \<open>\<open>s.split(sep)\<close> for a one-character separator: always at least one part.\<close>

fun split_acc :: "char \<Rightarrow> string \<Rightarrow> string \<Rightarrow> string list" where
  "split_acc sep cur [] = [cur]"
| "split_acc sep cur (c # cs) =
     (if c = sep then cur # split_acc sep [] cs else split_acc sep (cur @ [c]) cs)"

definition py_split :: "char \<Rightarrow> string \<Rightarrow> string list" where
  "py_split sep s = split_acc sep [] s"

text \<open>
  \<open>int(s)\<close> for a string, base 10, after CPython's \<open>PyLong_FromString\<close>: whitespace is
  skipped, then one optional sign, then digits with single underscores allowed between
  them, then whitespace to the end. \<open>int_max_str_digits\<close> is
  \<open>sys.get_int_max_str_digits()\<close> (0 switches the limit off; CPython applies it only
  above 640 digits). Every failure is a \<open>ValueError\<close>.
\<close>

definition is_space :: "char \<Rightarrow> bool" where
  "is_space c = (c = CHR 0x09 \<or> c = CHR 0x0A \<or> c = CHR 0x0B \<or> c = CHR 0x0C \<or> c = CHR 0x0D
                 \<or> c = CHR 0x20 \<or> c = CHR 0x85 \<or> c = CHR 0xA0)"

definition digit_val :: "char \<Rightarrow> nat option" where
  "digit_val c = map_of (zip ''0123456789'' [0, 1, 2, 3, 4, 5, 6, 7, 8, 9]) c"

definition is_digit :: "char \<Rightarrow> bool" where
  "is_digit c = (digit_val c \<noteq> None)"

fun digits_value :: "nat \<Rightarrow> string \<Rightarrow> nat" where
  "digits_value acc [] = acc"
| "digits_value acc (c # cs) = digits_value (10 * acc + (case digit_val c of Some d \<Rightarrow> d | None \<Rightarrow> 0)) cs"

fun double_underscore :: "string \<Rightarrow> bool" where
  "double_underscore (a # b # cs) = ((a = CHR ''_'' \<and> b = CHR ''_'') \<or> double_underscore (b # cs))"
| "double_underscore _ = False"

definition py_int :: "nat \<Rightarrow> string \<Rightarrow> exn + int" where
  "py_int int_max_str_digits s =
     (let s1 = dropWhile is_space s;
          negative = (s1 \<noteq> [] \<and> hd s1 = CHR ''-'');
          s2 = (if s1 \<noteq> [] \<and> (hd s1 = CHR ''+'' \<or> hd s1 = CHR ''-'') then tl s1 else s1);
          scanned = takeWhile (\<lambda>c. is_digit c \<or> c = CHR ''_'') s2;
          rest = dropWhile (\<lambda>c. is_digit c \<or> c = CHR ''_'') s2;
          digits = filter is_digit scanned
      in if scanned = [] \<or> hd scanned = CHR ''_'' \<or> last scanned = CHR ''_''
            \<or> double_underscore scanned
            \<or> (640 < length digits \<and> 0 < int_max_str_digits \<and> int_max_str_digits < length digits)
            \<or> dropWhile is_space rest \<noteq> []
         then Inl ValueError
         else Inr ((if negative then - 1 else 1) * int (digits_value 0 digits)))"

subsection \<open>True division and rounding\<close>

text \<open>
  \<open>a / b\<close> on Python integers is the double nearest to the exact quotient (ties to
  even). The only divisor in this file is \<open>chunk_size = 2 ^ 20\<close>; for a power of two the
  nearest double to the quotient is the nearest double to \<open>a\<close>, divided by \<open>b\<close>, and
  \<open>round_binary64 a\<close> is that nearest double (\<open>a\<close> itself below \<open>2 ^ 53\<close>). A quotient
  of \<open>2 ^ 1024\<close> or more raises \<open>OverflowError\<close>. A finite double is a rational number.
\<close>

definition round_binary64 :: "int \<Rightarrow> int" where
  "round_binary64 a =
     (if \<bar>a\<bar> < 2 ^ 53 then a
      else let k = nat (bitlen \<bar>a\<bar> - 53);
               m = \<bar>a\<bar> div 2 ^ k;
               r = \<bar>a\<bar> mod 2 ^ k;
               m' = (if 2 * r > 2 ^ k \<or> (2 * r = 2 ^ k \<and> odd m) then m + 1 else m)
           in sgn a * m' * 2 ^ k)"

definition truediv :: "int \<Rightarrow> int \<Rightarrow> exn + rat" where
  "truediv a b =
     (if b = 0 then Inl ZeroDivisionError
      else let q = of_int (round_binary64 a) / of_int b
           in if 2 ^ 1024 \<le> \<bar>q\<bar> then Inl OverflowError else Inr q)"

definition math_ceil :: "rat \<Rightarrow> int" where
  "math_ceil x = \<lceil>x\<rceil>"

definition math_floor :: "rat \<Rightarrow> int" where
  "math_floor x = \<lfloor>x\<rfloor>"

subsection \<open>Requests, responses and the process state\<close>

type_synonym client = nat

text \<open>\<open>utils.ByteStreamer(client)\<close>: the streaming object built for a client.\<close>

datatype tg_connect = ByteStreamer client

text \<open>What \<open>get_file_properties\<close> returns, as far as this file reads it.\<close>

record file_id =
  file_size :: int
  mime_type :: "string option"

text \<open>
  The request: the value of its \<open>Range\<close> header (\<open>None\<close> when the header is absent, where
  the code's \<open>headers.get("Range", 0)\<close> gives 0) and \<open>match_info["path"]\<close>.
\<close>

record request =
  headers_Range :: "string option"
  path :: string

text \<open>
  A response body is a text, or the generator \<open>tg_connect.yield_file(file_id, index,
  offset, first_part_cut, last_part_cut, part_count, chunk_size)\<close>, which is not run here.
\<close>

datatype payload =
    Text string
  | yield_file tg_connect file_id nat int int int int int

record response =
  status :: int
  body :: payload
  headers :: "(string \<times> string) list"

text \<open>
  The module state: \<open>work_loads\<close> in its iteration order, \<open>multi_clients\<close> and the
  \<open>class_cache\<close> that \<open>media_streamer\<close> fills.
\<close>

record globals =
  work_loads :: "(nat \<times> int) list"
  multi_clients :: "nat \<rightharpoonup> client"
  class_cache :: "client \<rightharpoonup> tg_connect"

text \<open>
  Code of other modules that the handlers call, taken as parameters:
  \<open>tg_connect.get_file_properties\<close>, \<open>utils.get_name\<close>, \<open>mimetypes.guess_type(...)[0]\<close>,
  \<open>render_page\<close> and the interpreter's integer string limit.
\<close>

record externals =
  get_file_properties :: "tg_connect \<Rightarrow> string \<Rightarrow> (nat \<rightharpoonup> client) \<Rightarrow> exn + file_id"
  get_name :: "file_id \<Rightarrow> string"
  guess_type :: "string \<Rightarrow> string option"
  render_page :: "string \<Rightarrow> exn + string"
  int_max_str_digits :: nat

subsection \<open>media_streamer\<close>

text \<open>
  Line 128, \<open>min(work_loads, key=work_loads.get)\<close>: the keys in iteration order, the
  current best replaced only by a strictly smaller load; \<open>ValueError\<close> on an empty dict.
\<close>

fun min_load :: "nat \<times> int \<Rightarrow> (nat \<times> int) list \<Rightarrow> nat \<times> int" where
  "min_load best [] = best"
| "min_load best (kv # rest) = min_load (if snd kv < snd best then kv else best) rest"

definition select_index :: "(nat \<times> int) list \<Rightarrow> exn + nat" where
  "select_index loads =
     (case loads of [] \<Rightarrow> Inl ValueError | kv # rest \<Rightarrow> Inr (fst (min_load kv rest)))"

text \<open>Lines 134 to 140: the cached object of the client, built and stored on a miss.\<close>

definition get_tg_connect ::
  "(client \<rightharpoonup> tg_connect) \<Rightarrow> client \<Rightarrow> tg_connect \<times> (client \<rightharpoonup> tg_connect)" where
  "get_tg_connect cache faster_client =
     (case cache faster_client of
        Some tg \<Rightarrow> (tg, cache)
      | None \<Rightarrow> (ByteStreamer faster_client, cache(faster_client \<mapsto> ByteStreamer faster_client)))"

text \<open>
  Lines 145 to 151. A header value that is present and not empty is split by the code
  itself. Otherwise the code reads aiohttp's \<open>request.http_range\<close>, which is
  \<open>slice(None, None, 1)\<close> when the header is absent and raises \<open>ValueError\<close> on the empty
  value, which does not match its pattern.
\<close>

definition parse_range :: "nat \<Rightarrow> string option \<Rightarrow> int \<Rightarrow> exn + (int \<times> int)" where
  "parse_range maxd range_header fsize =
     (case range_header of
        None \<Rightarrow> Inr (0, fsize - 1)
      | Some h \<Rightarrow>
          if h = [] then Inl ValueError
          else (case py_split CHR ''-'' (py_replace ''bytes='' [] h) of
                  [a, b] \<Rightarrow>
                    (case py_int maxd a of
                       Inl e \<Rightarrow> Inl e
                     | Inr from_bytes \<Rightarrow>
                         if b \<noteq> [] then
                           (case py_int maxd b of
                              Inl e \<Rightarrow> Inl e
                            | Inr until_bytes \<Rightarrow> Inr (from_bytes, until_bytes))
                         else Inr (from_bytes, fsize - 1))
                | _ \<Rightarrow> Inl ValueError))"

text \<open>Lines 160 to 168: the clamp and the chunk arithmetic.\<close>

definition chunk_size :: int where
  "chunk_size = 1024 * 1024"

record plan =
  until_bytes :: int
  offset :: int
  first_part_cut :: int
  last_part_cut :: int
  req_length :: int
  part_count :: int

definition chunk_plan :: "int \<Rightarrow> int \<Rightarrow> int \<Rightarrow> exn + plan" where
  "chunk_plan from_bytes until0 fsize =
     (let until = min until0 (fsize - 1);
          off = from_bytes - (from_bytes mod chunk_size)
      in case truediv until chunk_size of
           Inl e \<Rightarrow> Inl e
         | Inr q1 \<Rightarrow>
             (case truediv off chunk_size of
                Inl e \<Rightarrow> Inl e
              | Inr q2 \<Rightarrow>
                  Inr \<lparr>until_bytes = until,
                       offset = off,
                       first_part_cut = from_bytes - off,
                       last_part_cut = until mod chunk_size + 1,
                       req_length = until - from_bytes + 1,
                       part_count = math_ceil q1 - math_floor q2\<rparr>))"

text \<open>\<open>a or b\<close> on an optional string: \<open>None\<close> and the empty string are false.\<close>

definition py_or :: "string option \<Rightarrow> string \<Rightarrow> string" where
  "py_or a b = (case a of None \<Rightarrow> b | Some s \<Rightarrow> if s = [] then b else s)"

text \<open>Lines 173 to 188.\<close>

definition response_headers :: "externals \<Rightarrow> file_id \<Rightarrow> int \<Rightarrow> plan \<Rightarrow> bool \<Rightarrow> (string \<times> string) list" where
  "response_headers ext fid from_bytes p is_video =
     (let mime = py_or (mime_type fid)
                   (py_or (guess_type ext (get_name ext fid)) ''application/octet-stream'');
          disposition = (if is_video then ''inline'' else ''attachment'')
      in [(''Content-Type'', mime),
          (''Content-Range'',
             ''bytes '' @ str_int from_bytes @ ''-'' @ str_int (until_bytes p) @ ''/''
               @ str_int (file_size fid)),
          (''Content-Length'', str_int (req_length p)),
          (''Content-Disposition'',
             disposition @ ''; filename='' @ [CHR 0x22] @ get_name ext fid @ [CHR 0x22]),
          (''Accept-Ranges'', ''bytes''),
          (''Access-Control-Allow-Origin'', ''*''),
          (''Access-Control-Allow-Methods'', ''GET, HEAD, OPTIONS'')]
         @ (if is_video then [(''X-Frame-Options'', ''ALLOWALL'')] else []))"

text \<open>
  Lines 143 to 196, once the file is known: parse, validate (416), plan, respond.
  \<open>if range_header\<close> is false for the absent header and for the empty value.
\<close>

definition stream_response ::
  "externals \<Rightarrow> tg_connect \<Rightarrow> nat \<Rightarrow> file_id \<Rightarrow> string option \<Rightarrow> bool \<Rightarrow> exn + response" where
  "stream_response ext tg index fid range_header is_video =
     (case parse_range (int_max_str_digits ext) range_header (file_size fid) of
        Inl e \<Rightarrow> Inl e
      | Inr (from_bytes, until0) \<Rightarrow>
          if until0 > file_size fid \<or> from_bytes < 0 \<or> until0 < from_bytes then
            Inr \<lparr>status = 416,
                 body = Text ''416: Range not satisfiable'',
                 headers = [(''Content-Range'', ''bytes */'' @ str_int (file_size fid))]\<rparr>
          else
            (case chunk_plan from_bytes until0 (file_size fid) of
               Inl e \<Rightarrow> Inl e
             | Inr p \<Rightarrow>
                 Inr \<lparr>status = (if range_header \<noteq> None \<and> range_header \<noteq> Some [] then 206 else 200),
                      body = yield_file tg fid index (offset p) (first_part_cut p)
                               (last_part_cut p) (part_count p) chunk_size,
                      headers = response_headers ext fid from_bytes p is_video\<rparr>))"

text \<open>
  \<open>media_streamer\<close>: the result, and \<open>class_cache\<close> as the call leaves it. The cache is
  written before \<open>get_file_properties\<close> is awaited, so it keeps the new entry also when
  a later step raises.
\<close>

definition media_streamer ::
  "externals \<Rightarrow> globals \<Rightarrow> request \<Rightarrow> string \<Rightarrow> bool
     \<Rightarrow> (exn + response) \<times> (client \<rightharpoonup> tg_connect)" where
  "media_streamer ext g req db_id is_video =
     (let range_header = headers_Range req
      in case select_index (work_loads g) of
           Inl e \<Rightarrow> (Inl e, class_cache g)
         | Inr index \<Rightarrow>
             (case multi_clients g index of
                None \<Rightarrow> (Inl KeyError, class_cache g)
              | Some faster_client \<Rightarrow>
                  (let (tg, cache') = get_tg_connect (class_cache g) faster_client
                   in (case get_file_properties ext tg db_id (multi_clients g) of
                         Inl e \<Rightarrow> Inl e
                       | Inr fid \<Rightarrow> stream_response ext tg index fid range_header is_video,
                       cache'))))"

subsection \<open>The route handlers\<close>

text \<open>
  What a handler does with the request: it returns a response, returns \<open>None\<close> (the
  \<open>pass\<close> branch), or raises one of aiohttp's HTTP exceptions. \<open>HTTPForbidden\<close> and
  \<open>HTTPNotFound\<close> carry their text; \<open>HTTPInternalServerError e\<close> is the one raised with
  \<open>text=str(e)\<close>.
\<close>

datatype handler_result =
    Returned response
  | ReturnedNone
  | HTTPForbidden string
  | HTTPNotFound string
  | HTTPInternalServerError exn

fun status_code :: "handler_result \<Rightarrow> int option" where
  "status_code (Returned r) = Some (status r)"
| "status_code ReturnedNone = None"
| "status_code (HTTPForbidden t) = Some 403"
| "status_code (HTTPNotFound t) = Some 404"
| "status_code (HTTPInternalServerError e) = Some 500"

definition stream_handler :: "externals \<Rightarrow> request \<Rightarrow> handler_result" where
  "stream_handler ext req =
     (case render_page ext (path req) of
        Inr page \<Rightarrow>
          Returned \<lparr>status = 200, body = Text page,
                    headers = [(''Content-Type'', ''text/html'')]\<rparr>
      | Inl (InvalidHash m) \<Rightarrow> HTTPForbidden m
      | Inl (FIleNotFound m) \<Rightarrow> HTTPNotFound m
      | Inl AttributeError \<Rightarrow> ReturnedNone
      | Inl BadStatusLine \<Rightarrow> ReturnedNone
      | Inl ConnectionResetError \<Rightarrow> ReturnedNone
      | Inl e \<Rightarrow> HTTPInternalServerError e)"

definition download_handler :: "externals \<Rightarrow> globals \<Rightarrow> request \<Rightarrow> handler_result" where
  "download_handler ext g req =
     (case fst (media_streamer ext g req (path req) False) of
        Inr r \<Rightarrow> Returned r
      | Inl (InvalidHash m) \<Rightarrow> HTTPForbidden m
      | Inl (FIleNotFound m) \<Rightarrow> HTTPNotFound m
      | Inl AttributeError \<Rightarrow> ReturnedNone
      | Inl BadStatusLine \<Rightarrow> ReturnedNone
      | Inl ConnectionResetError \<Rightarrow> ReturnedNone
      | Inl e \<Rightarrow> HTTPInternalServerError e)"

definition video_stream_handler :: "externals \<Rightarrow> globals \<Rightarrow> request \<Rightarrow> handler_result" where
  "video_stream_handler ext g req =
     (case fst (media_streamer ext g req (path req) True) of
        Inr r \<Rightarrow> Returned r
      | Inl (InvalidHash m) \<Rightarrow> HTTPForbidden m
      | Inl (FIleNotFound m) \<Rightarrow> HTTPNotFound m
      | Inl AttributeError \<Rightarrow> ReturnedNone
      | Inl BadStatusLine \<Rightarrow> ReturnedNone
      | Inl ConnectionResetError \<Rightarrow> ReturnedNone
      | Inl e \<Rightarrow> HTTPInternalServerError e)"

subsection \<open>Notions of the specification\<close>

text \<open>
  Lines 128 to 142 went through: \<open>index\<close> was selected, its client is in
  \<open>multi_clients\<close>, \<open>tg\<close> is the client's streaming object and \<open>get_file_properties\<close>
  returned \<open>fid\<close>.
\<close>

definition resolves :: "externals \<Rightarrow> globals \<Rightarrow> string \<Rightarrow> nat \<Rightarrow> tg_connect \<Rightarrow> file_id \<Rightarrow> bool" where
  "resolves ext g db_id index tg fid =
     (case select_index (work_loads g) of
        Inl e \<Rightarrow> False
      | Inr i \<Rightarrow>
          i = index \<and>
          (case multi_clients g i of
             None \<Rightarrow> False
           | Some faster_client \<Rightarrow>
               tg = fst (get_tg_connect (class_cache g) faster_client) \<and>
               get_file_properties ext tg db_id (multi_clients g) = Inr fid))"

text \<open>
  The specification's part count (section 4.4, step 4), in integer arithmetic:
  \<open>ceil((until + 1) / chunk_size) - floor(offset / chunk_size)\<close>.
\<close>

definition spec_part_count :: "int \<Rightarrow> int \<Rightarrow> int" where
  "spec_part_count until off = - ((- (until + 1)) div chunk_size) - off div chunk_size"

text \<open>
  The number of bytes that the trimmed chunks of a plan add up to, as the
  specification counts them: \<open>(part_count - 1) * chunk_size + last_cut - first_cut\<close>.
\<close>

definition trimmed_length :: "plan \<Rightarrow> int" where
  "trimmed_length p = (part_count p - 1) * chunk_size + last_part_cut p - first_part_cut p"

text \<open>The specification's error table (section 7): the status sent for an exception, if any.\<close>

fun spec_error_status :: "exn \<Rightarrow> int option" where
  "spec_error_status (InvalidHash m) = Some 403"
| "spec_error_status (FIleNotFound m) = Some 404"
| "spec_error_status AttributeError = None"
| "spec_error_status BadStatusLine = None"
| "spec_error_status ConnectionResetError = None"
| "spec_error_status e = Some 500"

text \<open>A plain non-negative integer literal: one decimal digit or more, nothing else.\<close>

definition plain_literal :: "string \<Rightarrow> bool" where
  "plain_literal s = (s \<noteq> [] \<and> filter is_digit s = s)"

text \<open>The \<open><from>\<close> part of a \<open>Range\<close> header value: what line 146 hands to \<open>int()\<close> first.\<close>

definition from_part :: "string \<Rightarrow> string" where
  "from_part h = hd (py_split CHR ''-'' (py_replace ''bytes='' [] h))"

subsection \<open>A concrete deployment\<close>

text \<open>
  One client with no load and an empty cache; every path resolves to a file of the
  given size with no declared type.
\<close>

definition example_externals :: "int \<Rightarrow> externals" where
  "example_externals fsize =
     \<lparr>get_file_properties = (\<lambda>tg db_id clients. Inr \<lparr>file_size = fsize, mime_type = None\<rparr>),
      get_name = (\<lambda>fid. ''a.bin''),
      guess_type = (\<lambda>name. None),
      render_page = (\<lambda>p. Inr ''page''),
      int_max_str_digits = 4300\<rparr>"

definition example_globals :: globals where
  "example_globals = \<lparr>work_loads = [(0, 0)], multi_clients = [0 \<mapsto> 7], class_cache = Map.empty\<rparr>"

definition example_request :: "string option \<Rightarrow> request" where
  "example_request range_header = \<lparr>headers_Range = range_header, path = ''f''\<rparr>"

text \<open>The same deployment with a resolver and a page renderer that raise \<open>e\<close>.\<close>

definition failing_externals :: "exn \<Rightarrow> externals" where
  "failing_externals e =
     \<lparr>get_file_properties = (\<lambda>tg db_id clients. Inl e),
      get_name = (\<lambda>fid. ''a.bin''),
      guess_type = (\<lambda>name. None),
      render_page = (\<lambda>p. Inl e),
      int_max_str_digits = 4300\<rparr>"

section \<open>Auxiliary facts\<close>

subsection \<open>Resolution\<close>

lemma media_streamer_resolves:
  "resolves ext g db_id index tg fid \<Longrightarrow>
   fst (media_streamer ext g req db_id is_video) =
     stream_response ext tg index fid (headers_Range req) is_video"
  by (auto simp: resolves_def media_streamer_def Let_def split: sum.splits option.splits prod.splits)

lemma example_resolves:
  "resolves (example_externals n) example_globals db_id 0 (ByteStreamer 7)
     \<lparr>file_size = n, mime_type = None\<rparr>"
  by (simp add: resolves_def example_externals_def example_globals_def select_index_def
      get_tg_connect_def)

subsection \<open>Chunk arithmetic below \<open>2 ^ 53\<close>\<close>

lemma round_binary64_small: "\<bar>a\<bar> < 2 ^ 53 \<Longrightarrow> round_binary64 a = a"
  by (simp add: round_binary64_def)

lemma truediv_small:
  assumes "\<bar>a\<bar> < 2 ^ 53"
  shows "truediv a chunk_size = Inr (of_int a / of_int chunk_size)"
proof -
  have "\<bar>(of_int a :: rat) / of_int chunk_size\<bar> \<le> \<bar>of_int a\<bar>"
    by (simp add: chunk_size_def field_simps abs_mult)
  also have "\<dots> < 2 ^ 53"
    using assms by (metis of_int_abs of_int_less_numeral_power_cancel_iff)
  also have "(2::rat) ^ 53 \<le> 2 ^ 1024"
    by (rule power_increasing) simp_all
  finally have "\<not> 2 ^ 1024 \<le> \<bar>(of_int a :: rat) / of_int chunk_size\<bar>"
    by simp
  then show ?thesis
    using assms by (simp add: truediv_def round_binary64_small Let_def chunk_size_def)
qed

lemma truediv_small_ceil_floor:
  assumes "\<bar>a\<bar> < 2 ^ 53"
  shows "\<exists>q. truediv a chunk_size = Inr q \<and> math_ceil q = - ((- a) div chunk_size)
           \<and> math_floor q = a div chunk_size"
  by (simp add: truediv_small[OF assms] math_ceil_def math_floor_def ceiling_divide_eq_div
      floor_divide_of_int_eq)

lemma chunk_plan_small:
  assumes "\<bar>min until_req (fsize - 1)\<bar> < 2 ^ 53"
    and "\<bar>from_bytes - from_bytes mod chunk_size\<bar> < 2 ^ 53"
  shows "chunk_plan from_bytes until_req fsize =
     Inr \<lparr>until_bytes = min until_req (fsize - 1),
          offset = from_bytes - from_bytes mod chunk_size,
          first_part_cut = from_bytes - (from_bytes - from_bytes mod chunk_size),
          last_part_cut = min until_req (fsize - 1) mod chunk_size + 1,
          req_length = min until_req (fsize - 1) - from_bytes + 1,
          part_count = - ((- min until_req (fsize - 1)) div chunk_size)
                       - (from_bytes - from_bytes mod chunk_size) div chunk_size\<rparr>"
proof -
  obtain q1 where q1: "truediv (min until_req (fsize - 1)) chunk_size = Inr q1"
    "math_ceil q1 = - ((- min until_req (fsize - 1)) div chunk_size)"
    using truediv_small_ceil_floor[OF assms(1)] by blast
  obtain q2 where q2: "truediv (from_bytes - from_bytes mod chunk_size) chunk_size = Inr q2"
    "math_floor q2 = (from_bytes - from_bytes mod chunk_size) div chunk_size"
    using truediv_small_ceil_floor[OF assms(2)] by blast
  show ?thesis
    using q1 q2 by (simp add: chunk_plan_def Let_def)
qed

subsection \<open>The plan of a valid range\<close>

text \<open>
  For \<open>0 \<le> from \<le> until < size\<close> below \<open>2 ^ 53\<close> the plan is total and its fields have a
  closed form. The part count is one short of \<open>until div chunk_size - from div chunk_size + 1\<close>
  exactly when \<open>until\<close> is a multiple of \<open>chunk_size\<close>, and then the trimmed chunks are
  one chunk short of the requested length.
\<close>

lemma chunk_plan_valid:
  assumes "0 \<le> from_bytes" "from_bytes \<le> until_req" "until_req < fsize" "until_req < 2 ^ 53"
  shows "\<exists>p. chunk_plan from_bytes until_req fsize = Inr p
           \<and> until_bytes p = until_req
           \<and> offset p = chunk_size * (from_bytes div chunk_size)
           \<and> first_part_cut p = from_bytes mod chunk_size
           \<and> last_part_cut p = until_req mod chunk_size + 1
           \<and> req_length p = until_req - from_bytes + 1
           \<and> part_count p = until_req div chunk_size - from_bytes div chunk_size
                 + (if until_req mod chunk_size = 0 then 0 else 1)
           \<and> trimmed_length p = until_req - from_bytes + 1
                 - (if until_req mod chunk_size = 0 then chunk_size else 0)"
proof -
  have c: "chunk_size = 1048576" by (simp add: chunk_size_def)
  have m: "min until_req (fsize - 1) = until_req"
    using assms(3) by simp
  have off: "from_bytes - from_bytes mod chunk_size = chunk_size * (from_bytes div chunk_size)"
    by (simp add: minus_mod_eq_mult_div)
  have "0 \<le> from_bytes mod chunk_size" "from_bytes mod chunk_size < chunk_size"
    by (simp_all add: c)
  then have b1: "\<bar>from_bytes - from_bytes mod chunk_size\<bar> < 2 ^ 53"
    using assms(1,2,4) off c by (smt (verit) mult_nonneg_nonneg pos_imp_zdiv_nonneg_iff)
  have b2: "\<bar>min until_req (fsize - 1)\<bar> < 2 ^ 53"
    using assms(1,2,4) m by simp
  have ceil: "- ((- until_req) div chunk_size)
      = until_req div chunk_size + (if until_req mod chunk_size = 0 then 0 else 1)"
    by (simp add: zdiv_zminus1_eq_if c)
  have u: "until_req = chunk_size * (until_req div chunk_size) + until_req mod chunk_size"
    by simp
  have f: "from_bytes = chunk_size * (from_bytes div chunk_size) + from_bytes mod chunk_size"
    by simp
  have cnt: "- ((- until_req) div chunk_size) - (chunk_size * (from_bytes div chunk_size)) div chunk_size
      = until_req div chunk_size - from_bytes div chunk_size
          + (if until_req mod chunk_size = 0 then 0 else 1)"
    using ceil by (simp add: c)
  have len: "(until_req div chunk_size - from_bytes div chunk_size
          + (if until_req mod chunk_size = 0 then 0 else 1) - 1) * chunk_size
          + (until_req mod chunk_size + 1) - from_bytes mod chunk_size
      = until_req - from_bytes + 1 - (if until_req mod chunk_size = 0 then chunk_size else 0)"
    by (subst (3) u, subst (3) f) (simp add: algebra_simps)
  define p where "p = \<lparr>until_bytes = min until_req (fsize - 1),
          offset = from_bytes - from_bytes mod chunk_size,
          first_part_cut = from_bytes - (from_bytes - from_bytes mod chunk_size),
          last_part_cut = min until_req (fsize - 1) mod chunk_size + 1,
          req_length = min until_req (fsize - 1) - from_bytes + 1,
          part_count = - ((- min until_req (fsize - 1)) div chunk_size)
                       - (from_bytes - from_bytes mod chunk_size) div chunk_size\<rparr>"
  have plan: "chunk_plan from_bytes until_req fsize = Inr p"
    unfolding p_def by (rule chunk_plan_small[OF b2 b1])
  have pc: "part_count p = until_req div chunk_size - from_bytes div chunk_size
                 + (if until_req mod chunk_size = 0 then 0 else 1)"
    unfolding p_def m off using cnt by simp
  have fc: "first_part_cut p = from_bytes mod chunk_size"
    unfolding p_def by simp
  have lc: "last_part_cut p = until_req mod chunk_size + 1"
    unfolding p_def m by simp
  have tl: "trimmed_length p = until_req - from_bytes + 1
                 - (if until_req mod chunk_size = 0 then chunk_size else 0)"
    unfolding trimmed_length_def pc fc lc by (rule len)
  have rest: "until_bytes p = until_req" "offset p = chunk_size * (from_bytes div chunk_size)"
    "req_length p = until_req - from_bytes + 1"
    unfolding p_def m off by simp_all
  show ?thesis
    using plan pc fc lc tl rest by blast
qed

subsection \<open>Parsing plain range headers\<close>

lemma is_digit_cases:
  "is_digit c \<Longrightarrow> c \<in> set ''0123456789''"
  by (simp add: is_digit_def digit_val_def split: if_splits)

lemma is_digit_not_space: "is_digit c \<Longrightarrow> \<not> is_space c"
  by (auto dest!: is_digit_cases simp: is_space_def)

lemma is_digit_not_mark:
  "is_digit c \<Longrightarrow> c \<noteq> CHR ''_'' \<and> c \<noteq> CHR ''+'' \<and> c \<noteq> CHR ''-'' \<and> c \<noteq> CHR ''b''"
  by (auto dest!: is_digit_cases)

lemma double_underscore_absent: "CHR ''_'' \<notin> set s \<Longrightarrow> \<not> double_underscore s"
  by (induction s rule: double_underscore.induct) auto

lemma plain_literal_digits: "plain_literal s \<Longrightarrow> c \<in> set s \<Longrightarrow> is_digit c"
  by (metis filter_id_conv plain_literal_def)

lemma py_int_plain:
  assumes "plain_literal s" and "length s \<le> 640"
  shows "py_int maxd s = Inr (int (digits_value 0 s))"
proof -
  have ne: "s \<noteq> []" and all: "\<And>c. c \<in> set s \<Longrightarrow> is_digit c"
    using assms(1) plain_literal_digits by (auto simp: plain_literal_def)
  have hd: "is_digit (hd s)" and lst: "is_digit (last s)"
    using ne all by simp_all
  have s1: "dropWhile is_space s = s"
    using hd ne by (cases s) (auto dest: is_digit_not_space)
  have tw: "takeWhile (\<lambda>c. is_digit c \<or> c = CHR ''_'') s = s"
    using all by (simp add: takeWhile_eq_all_conv)
  have dw: "dropWhile (\<lambda>c. is_digit c \<or> c = CHR ''_'') s = []"
    using all by simp
  have flt: "filter is_digit s = s"
    using assms(1) by (simp add: plain_literal_def)
  have nodu: "\<not> double_underscore s"
    using all is_digit_not_mark by (intro double_underscore_absent) blast
  show ?thesis
    using ne hd lst nodu assms(2) is_digit_not_mark[OF hd] is_digit_not_mark[OF lst]
    by (simp add: py_int_def s1 tw dw flt Let_def)
qed

lemma py_replace_absent: "CHR ''b'' \<notin> set s \<Longrightarrow> py_replace ''bytes='' [] s = s"
proof (induction s)
  case Nil
  then show ?case by (simp add: py_replace.simps)
next
  case (Cons c s)
  then show ?case
    by (subst py_replace.simps) auto
qed

lemma py_replace_prefix:
  "py_replace ''bytes='' [] (''bytes='' @ s) = py_replace ''bytes='' [] s"
  by (subst py_replace.simps) simp

lemma split_acc_absent: "sep \<notin> set s \<Longrightarrow> split_acc sep cur s = [cur @ s]"
  by (induction s arbitrary: cur) auto

lemma split_acc_first:
  "sep \<notin> set a \<Longrightarrow> split_acc sep cur (a @ sep # b) = (cur @ a) # split_acc sep [] b"
  by (induction a arbitrary: cur) auto

lemma parse_range_plain:
  assumes "plain_literal a" "length a \<le> 640" "plain_literal b" "length b \<le> 640"
  shows "parse_range maxd (Some (''bytes='' @ a @ ''-'' @ b)) fsize =
           Inr (int (digits_value 0 a), int (digits_value 0 b))"
proof -
  have a: "CHR ''-'' \<notin> set a" "CHR ''b'' \<notin> set a"
    using plain_literal_digits[OF assms(1)] is_digit_not_mark by blast+
  have b: "CHR ''-'' \<notin> set b" "CHR ''b'' \<notin> set b"
    using plain_literal_digits[OF assms(3)] is_digit_not_mark by blast+
  have "py_replace ''bytes='' [] (''bytes='' @ a @ ''-'' @ b) = a @ ''-'' @ b"
    using a b by (simp only: py_replace_prefix) (simp add: py_replace_absent)
  moreover have "py_split CHR ''-'' (a @ ''-'' @ b) = [a, b]"
    using a b by (simp add: py_split_def split_acc_first split_acc_absent)
  moreover have "b \<noteq> []"
    using assms(3) by (simp add: plain_literal_def)
  ultimately show ?thesis
    by (simp add: parse_range_def py_int_plain assms)
qed


subsection \<open>Evaluations used by the examples\<close>

lemma parse_range_example:
  "parse_range maxd (Some ''bytes=500000-1500000'') fsize = Inr (500000, 1500000)"
  using parse_range_plain[of "''500000''" "''1500000''" maxd fsize]
  by (simp add: plain_literal_def is_digit_def digit_val_def)

lemma str_int_1000001: "str_int 1000001 = ''1000001''"
  by (simp add: str_int_def str_nat.simps digit_char_def)

lemma parse_range_absent: "parse_range maxd None fsize = Inr (0, fsize - 1)"
  by (simp add: parse_range_def)

lemma parse_range_empty: "parse_range maxd (Some []) fsize = Inl ValueError"
  by (simp add: parse_range_def)

lemma chunk_plan_fields:
  "chunk_plan from_bytes until_req fsize = Inr p \<Longrightarrow>
     until_bytes p = min until_req (fsize - 1)
     \<and> offset p = from_bytes - from_bytes mod chunk_size
     \<and> first_part_cut p = from_bytes - offset p
     \<and> last_part_cut p = until_bytes p mod chunk_size + 1
     \<and> req_length p = until_bytes p - from_bytes + 1"
  by (auto simp: chunk_plan_def Let_def split: sum.splits)

lemma str_int_0: "str_int 0 = ''0''"
  by (simp add: str_int_def str_nat.simps digit_char_def)

lemma str_int_small: "str_int 100 = ''100''" "str_int 99 = ''99''"
  by (simp_all add: str_int_def str_nat.simps digit_char_def)

lemma parse_range_150_160:
  "parse_range maxd (Some ''bytes=150-160'') fsize = Inr (150, 160)"
  using parse_range_plain[of "''150''" "''160''" maxd fsize]
  by (simp add: plain_literal_def is_digit_def digit_val_def)

lemma parse_range_0_100:
  "parse_range maxd (Some ''bytes=0-100'') fsize = Inr (0, 100)"
  using parse_range_plain[of "''0''" "''100''" maxd fsize]
  by (simp add: plain_literal_def is_digit_def digit_val_def)

subsection \<open>The failing deployment\<close>

lemma failing_resolution:
  "fst (media_streamer (failing_externals e) example_globals req db_id is_video) = Inl e"
  by (simp add: media_streamer_def failing_externals_def example_globals_def select_index_def
      get_tg_connect_def)

lemma failing_render: "render_page (failing_externals e) p = Inl e"
  by (simp add: failing_externals_def)

subsection \<open>The scan for the least load\<close>

lemma min_load_spec:
  "snd (min_load best rest) \<le> snd best
   \<and> (\<forall>kv \<in> set rest. snd (min_load best rest) \<le> snd kv)
   \<and> (min_load best rest = best
        \<or> (snd (min_load best rest) < snd best
            \<and> (\<exists>i < length rest. rest ! i = min_load best rest
                   \<and> (\<forall>j < i. snd (min_load best rest) < snd (rest ! j)))))"
proof (induction rest arbitrary: best)
  case Nil
  then show ?case by simp
next
  case (Cons kv rest)
  let ?b = "if snd kv < snd best then kv else best"
  let ?r = "min_load ?b rest"
  have r: "min_load best (kv # rest) = ?r" by simp
  note IH = Cons.IH[of ?b]
  have le: "snd ?r \<le> snd best" "snd ?r \<le> snd kv"
    using IH by (auto split: if_splits)
  have all: "\<forall>x \<in> set (kv # rest). snd ?r \<le> snd x"
    using IH le by auto
  have pos: "?r = best \<or> (snd ?r < snd best
      \<and> (\<exists>i < length (kv # rest). (kv # rest) ! i = ?r
             \<and> (\<forall>j < i. snd ?r < snd ((kv # rest) ! j))))"
  proof (cases "?r = ?b")
    case True
    show ?thesis
    proof (cases "snd kv < snd best")
      case True
      with \<open>?r = ?b\<close> have "?r = kv" by simp
      with True show ?thesis by (intro disjI2 conjI exI[of _ 0]) auto
    next
      case False
      with \<open>?r = ?b\<close> show ?thesis by simp
    qed
  next
    case False
    with IH obtain i where i: "snd ?r < snd ?b" "i < length rest" "rest ! i = ?r"
      "\<forall>j < i. snd ?r < snd (rest ! j)"
      by blast
    have lt: "snd ?r < snd best" "snd ?r < snd kv"
      using i(1) by (auto split: if_splits)
    have "\<forall>j < Suc i. snd ?r < snd ((kv # rest) ! j)"
      using i(4) lt(2) by (auto simp: nth_Cons split: nat.splits)
    then show ?thesis
      using i(2,3) lt(1) by (intro disjI2 conjI exI[of _ "Suc i"]) auto
  qed
  show ?case
    unfolding r using le(1) all pos by blast
qed

subsection \<open>What \<open>int()\<close> rejects\<close>

lemma if_Inl_ValueError: "(if C then Inl ValueError else Inr x) = Inl e \<Longrightarrow> e = ValueError"
  by (cases C) simp_all

lemma py_int_error: "py_int maxd s = Inl e \<Longrightarrow> e = ValueError"
  unfolding py_int_def Let_def by (rule if_Inl_ValueError)

lemma py_int_empty: "py_int maxd [] = Inl ValueError"
  by (simp add: py_int_def)

lemma dropWhile_keeps: "c \<in> set s \<Longrightarrow> \<not> P c \<Longrightarrow> c \<in> set (dropWhile P s)"
  by (induction s) auto

lemma py_int_garbage:
  assumes "c \<in> set s" and "\<not> is_digit c" and "\<not> is_space c"
    and "c \<noteq> CHR ''_''" and "c \<noteq> CHR ''+''" and "c \<noteq> CHR ''-''"
  shows "py_int maxd s = Inl ValueError"
proof -
  let ?s1 = "dropWhile is_space s"
  let ?s2 = "if ?s1 \<noteq> [] \<and> (hd ?s1 = CHR ''+'' \<or> hd ?s1 = CHR ''-'') then tl ?s1 else ?s1"
  let ?P = "\<lambda>c. is_digit c \<or> c = CHR ''_''"
  have c1: "c \<in> set ?s1"
    using assms(1,3) by (rule dropWhile_keeps)
  have c2: "c \<in> set ?s2"
    using c1 assms(5,6) by (cases ?s1) auto
  have "c \<in> set (dropWhile ?P ?s2)"
    using c2 assms(2,4) by (intro dropWhile_keeps) auto
  then have "c \<in> set (dropWhile is_space (dropWhile ?P ?s2))"
    using assms(3) by (rule dropWhile_keeps)
  then have "dropWhile is_space (dropWhile ?P ?s2) \<noteq> []"
    by (metis empty_iff empty_set)
  then show ?thesis
    unfolding py_int_def Let_def by (intro if_P disjI2)
qed

lemma parse_range_rejected:
  assumes "py_int maxd (from_part h) = Inl e"
  shows "parse_range maxd (Some h) fsize = Inl ValueError"
proof (cases "h = []")
  case True
  then show ?thesis by (simp add: parse_range_def)
next
  case False
  show ?thesis
  proof (cases "\<exists>a b. py_split CHR ''-'' (py_replace ''bytes='' [] h) = [a, b]")
    case True
    then obtain a b where ab: "py_split CHR ''-'' (py_replace ''bytes='' [] h) = [a, b]"
      by blast
    then have "py_int maxd a = Inl ValueError"
      using assms py_int_error by (fastforce simp: from_part_def)
    then show ?thesis
      using False ab by (simp add: parse_range_def)
  next
    case False
    then show ?thesis
      using \<open>h \<noteq> []\<close> by (auto simp: parse_range_def split: list.splits)
  qed
qed

lemma from_part_suffix: "from_part ''bytes=-500'' = []"
  by (simp add: from_part_def py_replace.simps py_split_def)

lemma from_part_plus: "from_part ''bytes=+5-10'' = ''+5''"
  by (simp add: from_part_def py_replace.simps py_split_def)

lemma py_int_plus_plain:
  assumes "plain_literal s" and "length s \<le> 640"
  shows "py_int maxd (CHR ''+'' # s) = Inr (int (digits_value 0 s))"
proof -
  have ne: "s \<noteq> []" and all: "\<And>c. c \<in> set s \<Longrightarrow> is_digit c"
    using assms(1) plain_literal_digits by (auto simp: plain_literal_def)
  have hd: "is_digit (hd s)" and lst: "is_digit (last s)"
    using ne all by simp_all
  have s1: "dropWhile is_space (CHR ''+'' # s) = CHR ''+'' # s"
    by (simp add: is_space_def)
  have tw: "takeWhile (\<lambda>c. is_digit c \<or> c = CHR ''_'') s = s"
    using all by (simp add: takeWhile_eq_all_conv)
  have dw: "dropWhile (\<lambda>c. is_digit c \<or> c = CHR ''_'') s = []"
    using all by simp
  have flt: "filter is_digit s = s"
    using assms(1) by (simp add: plain_literal_def)
  have nodu: "\<not> double_underscore s"
    using all is_digit_not_mark by (intro double_underscore_absent) blast
  show ?thesis
    using ne hd lst nodu assms(2) is_digit_not_mark[OF hd] is_digit_not_mark[OF lst]
    unfolding py_int_def s1 by (simp add: tw dw flt Let_def)
qed

lemma parse_range_plus: "parse_range maxd (Some ''bytes=+5-10'') fsize = Inr (5, 10)"
proof -
  have "py_split CHR ''-'' (py_replace ''bytes='' [] ''bytes=+5-10'') = [''+5'', ''10'']"
    by (simp add: py_replace.simps py_split_def)
  moreover have "py_int maxd ''+5'' = Inr 5"
    using py_int_plus_plain[of "''5''" maxd]
    by (simp add: plain_literal_def is_digit_def digit_val_def)
  moreover have "py_int maxd ''10'' = Inr 10"
    using py_int_plain[of "''10''" maxd]
    by (simp add: plain_literal_def is_digit_def digit_val_def)
  ultimately show ?thesis
    by (simp add: parse_range_def)
qed

subsection \<open>Requests at a chunk boundary\<close>

lemma parse_range_0_1048576:
  "parse_range maxd (Some ''bytes=0-1048576'') fsize = Inr (0, 1048576)"
  using parse_range_plain[of "''0''" "''1048576''" maxd fsize]
  by (simp add: plain_literal_def is_digit_def digit_val_def)

lemma parse_range_0_0:
  "parse_range maxd (Some ''bytes=0-0'') fsize = Inr (0, 0)"
  using parse_range_plain[of "''0''" "''0''" maxd fsize]
  by (simp add: plain_literal_def is_digit_def digit_val_def)

lemma str_int_1048577: "str_int 1048577 = ''1048577''"
  by (simp add: str_int_def str_nat.simps digit_char_def)

lemma example_stream_response:
  "fst (media_streamer (example_externals n) example_globals (example_request h) ''f'' v)
     = stream_response (example_externals n) (ByteStreamer 7) 0
         \<lparr>file_size = n, mime_type = None\<rparr> h v"
  unfolding media_streamer_resolves[OF example_resolves]
  by (simp add: example_request_def)

subsection \<open>Signed and padded numbers\<close>

lemma from_part_space: "from_part ''bytes= 5-10'' = '' 5''"
  by (simp add: from_part_def py_replace.simps py_split_def)

lemma parse_range_space: "parse_range maxd (Some ''bytes= 5-10'') fsize = Inr (5, 10)"
proof -
  have "py_split CHR ''-'' (py_replace ''bytes='' [] ''bytes= 5-10'') = ['' 5'', ''10'']"
    by (simp add: py_replace.simps py_split_def)
  moreover have "py_int maxd '' 5'' = Inr 5"
    by (simp add: py_int_def is_space_def is_digit_def digit_val_def)
  moreover have "py_int maxd ''10'' = Inr 10"
    using py_int_plain[of "''10''" maxd]
    by (simp add: plain_literal_def is_digit_def digit_val_def)
  ultimately show ?thesis
    by (simp add: parse_range_def)
qed

lemma example_download_status:
  "status_code (download_handler (example_externals n) example_globals (example_request h))
     = (case stream_response (example_externals n) (ByteStreamer 7) 0
               \<lparr>file_size = n, mime_type = None\<rparr> h False of
          Inr r \<Rightarrow> Some (status r)
        | Inl e \<Rightarrow> spec_error_status e)"
proof -
  have "fst (media_streamer (example_externals n) example_globals (example_request h)
               (path (example_request h)) False)
        = stream_response (example_externals n) (ByteStreamer 7) 0
            \<lparr>file_size = n, mime_type = None\<rparr> h False"
    unfolding media_streamer_resolves[OF example_resolves]
    by (simp add: example_request_def)
  then show ?thesis
    by (cases "stream_response (example_externals n) (ByteStreamer 7) 0
               \<lparr>file_size = n, mime_type = None\<rparr> h False")
       (auto simp: download_handler_def split: exn.splits)
qed

subsection \<open>The connection cache\<close>

text \<open>Run one after the other, two lookups of a client give the same object.\<close>

lemma get_tg_connect_cached:
  "get_tg_connect cache faster_client = (tg, cache') \<Longrightarrow>
   get_tg_connect cache' faster_client = (tg, cache')"
  by (auto simp: get_tg_connect_def split: option.splits)

subsection \<open>The request at the end of the object\<close>

text \<open>
  Line 153 tests \<open>until_bytes < from_bytes\<close> before line 161 clamps \<open>until_bytes\<close>. For
  \<open>bytes=100-100\<close> on an object of 100 bytes no test of line 153 holds, the clamp makes
  \<open>until_bytes\<close> 99, and the answer is a 206 for the range 100 to 99 with no bytes.
\<close>

lemma request_at_end_of_object:
  "map_sum id (\<lambda>r. (status r, map_of (headers r) ''Content-Range'',
                     map_of (headers r) ''Content-Length''))
     (fst (media_streamer (example_externals 100) example_globals
            (example_request (Some ''bytes=100-100'')) ''f'' False))
   = Inr (206, Some ''bytes 100-99/100'', Some ''0'')"
proof -
  have p: "parse_range maxd (Some ''bytes=100-100'') fsize = Inr (100, 100)" for maxd fsize
    using parse_range_plain[of "''100''" "''100''" maxd fsize]
    by (simp add: plain_literal_def is_digit_def digit_val_def)
  show ?thesis
    unfolding example_stream_response
    by (simp add: stream_response_def p chunk_plan_small chunk_size_def response_headers_def
        str_int_small str_int_0 example_externals_def)
qed

section \<open>The claims\<close>

subsection \<open>C1: the unsatisfiable range\<close>

text \<open>
  C1, as amended. When the object resolves and the range parses to \<open>(from, until)\<close>:
  if \<open>until > size\<close>, \<open>from < 0\<close> or \<open>until < from\<close>, \<open>media_streamer\<close> returns the
  response of status 416 with the one header \<open>Content-Range: bytes */<size>\<close> and the body
  \<open>416: Range not satisfiable\<close>; and if \<open>0 \<le> from \<le> until \<le> size\<close> with \<open>from < size\<close>, it
  returns no response of status 416. The remaining input, \<open>from = until = size\<close>, is left
  open.
\<close>

theorem range_not_satisfiable:
  assumes "resolves ext g db_id index tg fid"
    and "parse_range (int_max_str_digits ext) (headers_Range req) (file_size fid)
           = Inr (from_bytes, until_req)"
  shows "((file_size fid < until_req \<or> from_bytes < 0 \<or> until_req < from_bytes) \<longrightarrow>
            fst (media_streamer ext g req db_id is_video) =
              Inr \<lparr>status = 416, body = Text ''416: Range not satisfiable'',
                   headers = [(''Content-Range'', ''bytes */'' @ str_int (file_size fid))]\<rparr>)
       \<and> (0 \<le> from_bytes \<and> from_bytes \<le> until_req \<and> until_req \<le> file_size fid
            \<and> from_bytes < file_size fid \<longrightarrow>
            (\<forall>r. fst (media_streamer ext g req db_id is_video) = Inr r \<longrightarrow> status r \<noteq> 416))"
  using assms(2) unfolding media_streamer_resolves[OF assms(1)]
  by (auto simp: stream_response_def split: sum.splits)

text \<open>
  Both hypotheses of C1 hold on an object of 100 bytes: the first for \<open>bytes=150-160\<close>,
  the second for \<open>bytes=0-100\<close>.
\<close>

theorem range_not_satisfiable_witness:
  "resolves (example_externals 100) example_globals ''f'' 0 (ByteStreamer 7)
     \<lparr>file_size = 100, mime_type = None\<rparr>
   \<and> parse_range 4300 (Some ''bytes=150-160'') 100 = Inr (150, 160)
   \<and> (100 :: int) < 160
   \<and> fst (media_streamer (example_externals 100) example_globals
            (example_request (Some ''bytes=150-160'')) ''f'' False) =
       Inr \<lparr>status = 416, body = Text ''416: Range not satisfiable'',
            headers = [(''Content-Range'', ''bytes */100'')]\<rparr>
   \<and> parse_range 4300 (Some ''bytes=0-100'') 100 = Inr (0, 100)
   \<and> (0 :: int) \<le> 0 \<and> (0 :: int) \<le> 100 \<and> (100 :: int) \<le> 100 \<and> (0 :: int) < 100
   \<and> map_sum id status (fst (media_streamer (example_externals 100) example_globals
            (example_request (Some ''bytes=0-100'')) ''f'' False)) = Inr 206"
proof -
  have p: "parse_range (int_max_str_digits (example_externals 100))
             (headers_Range (example_request (Some ''bytes=150-160'')))
             (file_size \<lparr>file_size = 100, mime_type = None\<rparr>) = Inr (150, 160)"
    by (simp add: example_request_def parse_range_150_160)
  have q: "parse_range (int_max_str_digits (example_externals 100))
             (headers_Range (example_request (Some ''bytes=0-100'')))
             (file_size \<lparr>file_size = 100, mime_type = None\<rparr>) = Inr (0, 100)"
    by (simp add: example_request_def parse_range_0_100)
  have s: "map_sum id status (fst (media_streamer (example_externals 100) example_globals
            (example_request (Some ''bytes=0-100'')) ''f'' False)) = Inr 206"
    unfolding example_stream_response
    by (simp add: stream_response_def parse_range_0_100 chunk_plan_small chunk_size_def)
  show ?thesis
    using range_not_satisfiable[OF example_resolves p, of "''f''" False]
      range_not_satisfiable[OF example_resolves q, of "''f''" False]
      example_resolves[of 100 "''f''"] s
    by (simp add: str_int_small parse_range_150_160 parse_range_0_100)
qed

text \<open>
  C1 as stated rejects \<open>until >= size\<close> and sends no body. On an object of 100 bytes
  \<open>bytes=0-100\<close> has \<open>until = size\<close> and is answered with 206 (line 153 tests
  \<open>until_bytes > file_size\<close> and line 161 clamps), and the 416 response to
  \<open>bytes=150-160\<close> carries a text.
\<close>

theorem range_not_satisfiable_counterexample:
  "parse_range 4300 (Some ''bytes=0-100'') 100 = Inr (0, 100)
   \<and> (100 :: int) \<ge> 100
   \<and> map_sum id status (fst (media_streamer (example_externals 100) example_globals
         (example_request (Some ''bytes=0-100'')) ''f'' False)) = Inr 206
   \<and> map_sum id body (fst (media_streamer (example_externals 100) example_globals
         (example_request (Some ''bytes=150-160'')) ''f'' False))
       = Inr (Text ''416: Range not satisfiable'')
   \<and> Text ''416: Range not satisfiable'' \<noteq> Text []"
  unfolding media_streamer_resolves[OF example_resolves]
  by (simp add: stream_response_def example_request_def parse_range_0_100 parse_range_150_160
      chunk_plan_small chunk_size_def)

subsection \<open>C2: the four formulas\<close>

text \<open>
  C2, at the request \<open>Range: bytes=0-1048576\<close> on an object of 10000000 bytes. The code
  plans one part (line 168 takes the ceiling of \<open>until_bytes / chunk_size\<close>); the
  specification's formula, with \<open>until + 1\<close>, gives two.
\<close>

theorem part_count_at_chunk_boundary:
  "map_sum id body (fst (media_streamer (example_externals 10000000) example_globals
       (example_request (Some ''bytes=0-1048576'')) ''f'' False))
     = Inr (yield_file (ByteStreamer 7) \<lparr>file_size = 10000000, mime_type = None\<rparr>
              0 0 0 1 1 1048576)
   \<and> spec_part_count 1048576 0 = 2"
  unfolding example_stream_response
  by (simp add: stream_response_def example_externals_def
      parse_range_0_1048576 chunk_plan_small chunk_size_def spec_part_count_def)

subsection \<open>C3: the length of the trimmed chunks\<close>

text \<open>
  C3, at the same request. The plan of the code adds up to one byte,
  \<open>(part_count - 1) * chunk_size + last_cut - first_cut = 1\<close>, and the response announces a
  \<open>Content-Length\<close> of \<open>until - from + 1 = 1048577\<close>.
\<close>

theorem trimmed_length_at_chunk_boundary:
  "map_sum id trimmed_length (chunk_plan 0 1048576 10000000) = Inr 1
   \<and> map_sum id (\<lambda>r. map_of (headers r) ''Content-Length'')
        (fst (media_streamer (example_externals 10000000) example_globals
           (example_request (Some ''bytes=0-1048576'')) ''f'' False))
      = Inr (Some ''1048577'')"
  unfolding example_stream_response
  by (simp add: stream_response_def example_externals_def
      parse_range_0_1048576 chunk_plan_small chunk_size_def trimmed_length_def
      response_headers_def str_int_1048577)

subsection \<open>C4: the worked example\<close>

text \<open>
  C4, as amended. For an object of 10000000 bytes that resolves and the request header
  \<open>Range: bytes=500000-1500000\<close>, \<open>media_streamer\<close> answers 206 with a body that is
  \<open>yield_file\<close> at offset 0, first cut 500000, last cut 451425, part count 2 and chunk
  size 1048576, and a \<open>Content-Length\<close> of 1000001.
\<close>

theorem example_plan:
  assumes "resolves ext g db_id index tg fid"
    and "file_size fid = 10000000"
    and "headers_Range req = Some ''bytes=500000-1500000''"
  shows "\<exists>r. fst (media_streamer ext g req db_id is_video) = Inr r
           \<and> status r = 206
           \<and> body r = yield_file tg fid index 0 500000 451425 2 1048576
           \<and> map_of (headers r) ''Content-Length'' = Some ''1000001''"
  unfolding media_streamer_resolves[OF assms(1)]
  by (simp add: stream_response_def assms(2,3) parse_range_example chunk_plan_small
      chunk_size_def response_headers_def str_int_1000001)

text \<open>The hypotheses of C4 hold in the concrete deployment.\<close>

theorem example_plan_witness:
  "resolves (example_externals 10000000) example_globals ''f'' 0 (ByteStreamer 7)
     \<lparr>file_size = 10000000, mime_type = None\<rparr>
   \<and> headers_Range (example_request (Some ''bytes=500000-1500000''))
       = Some ''bytes=500000-1500000''
   \<and> (\<exists>r. fst (media_streamer (example_externals 10000000) example_globals
                 (example_request (Some ''bytes=500000-1500000'')) ''f'' False) = Inr r
          \<and> status r = 206
          \<and> body r = yield_file (ByteStreamer 7) \<lparr>file_size = 10000000, mime_type = None\<rparr>
                        0 0 500000 451425 2 1048576
          \<and> map_of (headers r) ''Content-Length'' = Some ''1000001'')"
proof -
  have h: "headers_Range (example_request (Some ''bytes=500000-1500000''))
             = Some ''bytes=500000-1500000''"
    by (simp add: example_request_def)
  show ?thesis
    using example_plan[OF example_resolves _ h, of 10000000 "''f''" False] example_resolves h
    by simp
qed

text \<open>
  C4 as stated names the last cut 451665. The code computes
  \<open>1500000 mod 1048576 + 1 = 451425\<close>.
\<close>

theorem example_plan_last_cut_counterexample:
  "map_sum id body (fst (media_streamer (example_externals 10000000) example_globals
       (example_request (Some ''bytes=500000-1500000'')) ''f'' False))
     = Inr (yield_file (ByteStreamer 7) \<lparr>file_size = 10000000, mime_type = None\<rparr>
              0 0 500000 451425 2 1048576)
   \<and> (451425 :: int) \<noteq> 451665"
  unfolding media_streamer_resolves[OF example_resolves]
  by (simp add: stream_response_def example_request_def parse_range_example chunk_plan_small
      chunk_size_def)

subsection \<open>C5: the ranges of the plan\<close>

text \<open>
  C5, at the request \<open>Range: bytes=0-0\<close> on an object of 10000000 bytes. The response is
  a 206 whose body is \<open>yield_file\<close> with a part count of 0.
\<close>

theorem part_count_zero:
  "map_sum id status (fst (media_streamer (example_externals 10000000) example_globals
       (example_request (Some ''bytes=0-0'')) ''f'' False)) = Inr 206
   \<and> map_sum id body (fst (media_streamer (example_externals 10000000) example_globals
       (example_request (Some ''bytes=0-0'')) ''f'' False))
     = Inr (yield_file (ByteStreamer 7) \<lparr>file_size = 10000000, mime_type = None\<rparr>
              0 0 0 1 0 1048576)"
  unfolding example_stream_response
  by (simp add: stream_response_def example_externals_def
      parse_range_0_0 chunk_plan_small chunk_size_def)

subsection \<open>C6: 206 and 200\<close>

text \<open>
  C6. Every response of \<open>media_streamer\<close> other than the 416 has status 206 exactly when
  the request has a \<open>Range\<close> header and status 200 otherwise; without the header its
  \<open>Content-Range\<close> is \<open>bytes 0-<size-1>/<size>\<close> and its \<open>Content-Length\<close> is the size.
\<close>

theorem status_by_range_header:
  assumes "resolves ext g db_id index tg fid"
    and "fst (media_streamer ext g req db_id is_video) = Inr r"
    and "status r \<noteq> 416"
  shows "(status r = 206 \<longleftrightarrow> headers_Range req \<noteq> None)
       \<and> (status r = 200 \<longleftrightarrow> headers_Range req = None)
       \<and> (headers_Range req = None \<longrightarrow>
            map_of (headers r) ''Content-Range''
              = Some (''bytes 0-'' @ str_int (file_size fid - 1) @ ''/'' @ str_int (file_size fid))
            \<and> map_of (headers r) ''Content-Length'' = Some (str_int (file_size fid)))"
proof (cases "headers_Range req")
  case None
  then show ?thesis
    using assms(2,3) unfolding media_streamer_resolves[OF assms(1)]
    by (auto simp: stream_response_def parse_range_absent response_headers_def str_int_0
        dest!: chunk_plan_fields split: sum.splits if_splits)
next
  case (Some h)
  then show ?thesis
    using assms(2,3) unfolding media_streamer_resolves[OF assms(1)]
    by (cases "h = []")
       (auto simp: stream_response_def parse_range_empty split: sum.splits if_splits)
qed

text \<open>The hypotheses of C6 hold for a request without the header.\<close>

theorem status_by_range_header_witness:
  "resolves (example_externals 100) example_globals ''f'' 0 (ByteStreamer 7)
     \<lparr>file_size = 100, mime_type = None\<rparr>
   \<and> (\<exists>r. fst (media_streamer (example_externals 100) example_globals
                 (example_request None) ''f'' False) = Inr r
          \<and> status r = 200
          \<and> map_of (headers r) ''Content-Range'' = Some ''bytes 0-99/100''
          \<and> map_of (headers r) ''Content-Length'' = Some ''100'')"
proof -
  obtain r where r: "fst (media_streamer (example_externals 100) example_globals
                 (example_request None) ''f'' False) = Inr r" "status r = 200"
    unfolding media_streamer_resolves[OF example_resolves]
    by (simp add: stream_response_def example_request_def parse_range_absent chunk_plan_small
        chunk_size_def)
  have n: "headers_Range (example_request None) = None"
    by (simp add: example_request_def)
  show ?thesis
    using status_by_range_header[OF example_resolves r(1)] r n example_resolves[of 100 "''f''"]
    by (simp add: str_int_small)
qed

subsection \<open>C7: exceptions and status codes\<close>

text \<open>
  C7. In the handlers of \<open>/dl\<close>, \<open>/video\<close> and \<open>/watch\<close>, an exception \<open>e\<close> of the underlying
  operation (\<open>media_streamer\<close>, \<open>render_page\<close>) is answered as the specification's table
  says: \<open>InvalidHash\<close> with 403, \<open>FIleNotFound\<close> with 404, \<open>AttributeError\<close>,
  \<open>BadStatusLine\<close> and \<open>ConnectionResetError\<close> with no response (the handler returns
  \<open>None\<close>), and every other exception with the 500 whose text is \<open>str(e)\<close>.
\<close>

theorem error_mapping:
  "(fst (media_streamer ext g req (path req) False) = Inl e \<longrightarrow>
      status_code (download_handler ext g req) = spec_error_status e
      \<and> (spec_error_status e = None \<longrightarrow> download_handler ext g req = ReturnedNone)
      \<and> (spec_error_status e = Some 500 \<longrightarrow>
           download_handler ext g req = HTTPInternalServerError e))
   \<and> (fst (media_streamer ext g req (path req) True) = Inl e \<longrightarrow>
      status_code (video_stream_handler ext g req) = spec_error_status e
      \<and> (spec_error_status e = None \<longrightarrow> video_stream_handler ext g req = ReturnedNone)
      \<and> (spec_error_status e = Some 500 \<longrightarrow>
           video_stream_handler ext g req = HTTPInternalServerError e))
   \<and> (render_page ext (path req) = Inl e \<longrightarrow>
      status_code (stream_handler ext req) = spec_error_status e
      \<and> (spec_error_status e = None \<longrightarrow> stream_handler ext req = ReturnedNone)
      \<and> (spec_error_status e = Some 500 \<longrightarrow>
           stream_handler ext req = HTTPInternalServerError e))"
  by (cases e) (simp_all add: download_handler_def video_stream_handler_def stream_handler_def)

text \<open>Each row of the table, in the deployment whose resolver and renderer raise.\<close>

theorem error_mapping_witness:
  "fst (media_streamer (failing_externals (InvalidHash ''Invalid hash'')) example_globals
          (example_request None) (path (example_request None)) False)
     = Inl (InvalidHash ''Invalid hash'')
   \<and> download_handler (failing_externals (InvalidHash ''Invalid hash'')) example_globals
         (example_request None) = HTTPForbidden ''Invalid hash''
   \<and> status_code (video_stream_handler (failing_externals (FIleNotFound ''File not found''))
         example_globals (example_request None)) = Some 404
   \<and> stream_handler (failing_externals ConnectionResetError) (example_request None)
       = ReturnedNone
   \<and> download_handler (failing_externals (OtherException ''boom'')) example_globals
         (example_request None) = HTTPInternalServerError (OtherException ''boom'')"
  using error_mapping[of "failing_externals (InvalidHash ''Invalid hash'')" example_globals
          "example_request None" "InvalidHash ''Invalid hash''"]
    error_mapping[of "failing_externals (FIleNotFound ''File not found'')" example_globals
          "example_request None" "FIleNotFound ''File not found''"]
    error_mapping[of "failing_externals ConnectionResetError" example_globals
          "example_request None" ConnectionResetError]
    error_mapping[of "failing_externals (OtherException ''boom'')" example_globals
          "example_request None" "OtherException ''boom''"]
  by (simp add: failing_resolution failing_render download_handler_def video_stream_handler_def
      stream_handler_def)


subsection \<open>C8: the least-loaded client\<close>

text \<open>
  C8. For a non-empty \<open>work_loads\<close> (a dict: every key once), line 128 selects a key
  whose load is the least of the table, and among the keys with that load the first in
  iteration order: every earlier entry has a strictly greater load.
\<close>

theorem least_loaded_first:
  assumes "loads \<noteq> []" and "distinct (map fst loads)"
  shows "\<exists>i < length loads.
           select_index loads = Inr (fst (loads ! i))
           \<and> map_of loads (fst (loads ! i)) = Some (snd (loads ! i))
           \<and> (\<forall>j < length loads. snd (loads ! i) \<le> snd (loads ! j))
           \<and> (\<forall>j < i. snd (loads ! i) < snd (loads ! j))"
proof -
  obtain kv rest where loads: "loads = kv # rest"
    using assms(1) by (cases loads) auto
  let ?r = "min_load kv rest"
  have sel: "select_index loads = Inr (fst ?r)"
    by (simp add: select_index_def loads)
  have le: "\<forall>x \<in> set loads. snd ?r \<le> snd x"
    using min_load_spec[of kv rest] by (auto simp: loads)
  from min_load_spec[of kv rest]
  obtain i where i: "i < length loads" "loads ! i = ?r" "\<forall>j < i. snd ?r < snd (loads ! j)"
  proof (elim conjE disjE exE)
    assume "?r = kv"
    then show ?thesis by (intro that[of 0]) (auto simp: loads)
  next
    fix k assume "k < length rest" "rest ! k = ?r" "\<forall>j < k. snd ?r < snd (rest ! j)"
      and lt: "snd ?r < snd kv"
    then show ?thesis
      by (intro that[of "Suc k"]) (auto simp: loads nth_Cons split: nat.splits)
  qed
  have "(fst (loads ! i), snd (loads ! i)) \<in> set loads"
    using i(1) by simp
  then have look: "map_of loads (fst (loads ! i)) = Some (snd (loads ! i))"
    using assms(2) by (simp add: map_of_eq_Some_iff)
  show ?thesis
    using i le sel look by (intro exI[of _ i]) auto
qed

text \<open>In \<open>{0: 3, 1: 2, 2: 2, 3: 5}\<close> keys 1 and 2 tie for the least load; 1 is selected.\<close>

theorem least_loaded_first_witness:
  "[(0, 3), (1, 2), (2, 2), (3, 5)] \<noteq> ([] :: (nat \<times> int) list)
   \<and> distinct (map fst [(0 :: nat, 3 :: int), (1, 2), (2, 2), (3, 5)])
   \<and> select_index [(0, 3), (1, 2), (2, 2), (3, 5)] = Inr 1"
  using least_loaded_first[of "[(0, 3), (1, 2), (2, 2), (3, 5)]"]
  by (simp add: select_index_def)

subsection \<open>C10: a range that does not parse\<close>

text \<open>
  C10, as amended. When the object resolves, the \<open>Range\<close> header is present and its
  \<open><from>\<close> part is one that \<open>int()\<close> rejects (it is empty, as in the suffix form
  \<open>bytes=-500\<close>; or it holds a character that is no decimal digit, no whitespace, no
  underscore and no sign; or \<open>int()\<close> rejects it for another reason), \<open>media_streamer\<close>
  raises \<open>ValueError\<close> before the range is validated, and the handlers of \<open>/dl\<close> and
  \<open>/video\<close> answer 500.
\<close>

theorem rejected_from_part:
  assumes "resolves ext g (path req) index tg fid"
    and "headers_Range req = Some h"
    and "from_part h = []
         \<or> (\<exists>c \<in> set (from_part h). \<not> is_digit c \<and> \<not> is_space c
               \<and> c \<noteq> CHR ''_'' \<and> c \<noteq> CHR ''+'' \<and> c \<noteq> CHR ''-'')
         \<or> py_int (int_max_str_digits ext) (from_part h) = Inl ValueError"
  shows "fst (media_streamer ext g req (path req) False) = Inl ValueError
       \<and> fst (media_streamer ext g req (path req) True) = Inl ValueError
       \<and> download_handler ext g req = HTTPInternalServerError ValueError
       \<and> video_stream_handler ext g req = HTTPInternalServerError ValueError
       \<and> status_code (download_handler ext g req) = Some 500
       \<and> status_code (video_stream_handler ext g req) = Some 500"
proof -
  have "py_int (int_max_str_digits ext) (from_part h) = Inl ValueError"
    using assms(3) by (auto simp: py_int_empty intro: py_int_garbage)
  then have "parse_range (int_max_str_digits ext) (Some h) (file_size fid) = Inl ValueError"
    by (rule parse_range_rejected)
  then have "fst (media_streamer ext g req (path req) is_video) = Inl ValueError" for is_video
    unfolding media_streamer_resolves[OF assms(1)]
    by (simp add: stream_response_def assms(2))
  then show ?thesis
    by (simp add: download_handler_def video_stream_handler_def)
qed

text \<open>The hypotheses of C10 hold for the suffix form \<open>bytes=-500\<close>.\<close>

theorem rejected_from_part_witness:
  "resolves (example_externals 1000) example_globals (path (example_request (Some ''bytes=-500'')))
     0 (ByteStreamer 7) \<lparr>file_size = 1000, mime_type = None\<rparr>
   \<and> from_part ''bytes=-500'' = []
   \<and> download_handler (example_externals 1000) example_globals
         (example_request (Some ''bytes=-500'')) = HTTPInternalServerError ValueError
   \<and> status_code (video_stream_handler (example_externals 1000) example_globals
         (example_request (Some ''bytes=-500''))) = Some 500"
proof -
  have h: "headers_Range (example_request (Some ''bytes=-500'')) = Some ''bytes=-500''"
    by (simp add: example_request_def)
  show ?thesis
    using rejected_from_part[OF example_resolves h, of 1000] from_part_suffix
      example_resolves[of 1000 "path (example_request (Some ''bytes=-500''))"]
    by simp
qed

text \<open>
  C10 as stated takes every \<open><from>\<close> part that is not a plain non-negative integer
  literal to be rejected. \<open>int()\<close> accepts more: a leading \<open>+\<close>, whitespace around the
  digits and single underscores between them. \<open>Range: bytes=+5-10\<close> and
  \<open>Range: bytes= 5-10\<close> on an object of 100 bytes are answered with 206.
\<close>

theorem rejected_from_part_counterexample:
  "from_part ''bytes=+5-10'' = ''+5''
   \<and> \<not> plain_literal ''+5''
   \<and> status_code (download_handler (example_externals 100) example_globals
         (example_request (Some ''bytes=+5-10''))) = Some 206
   \<and> from_part ''bytes= 5-10'' = '' 5''
   \<and> \<not> plain_literal '' 5''
   \<and> status_code (download_handler (example_externals 100) example_globals
         (example_request (Some ''bytes= 5-10''))) = Some 206"
  unfolding example_download_status
  by (simp add: stream_response_def parse_range_plus parse_range_space chunk_plan_small
      chunk_size_def from_part_plus from_part_space plain_literal_def is_digit_def digit_val_def)

end
